theory Spec2Isabelle
  imports Complex_Main
begin

section \<open>History chains of the lexical prefix tree\<close>

text \<open>
  The three history structs of \<^verbatim>\<open>TPLexPrefixTree\<close> (\<^verbatim>\<open>LMHistory\<close>,
  \<^verbatim>\<open>WordHistory\<close>, \<^verbatim>\<open>StateHistory\<close>) are heap records that point to
  an earlier record of the same kind through \<^verbatim>\<open>previous\<close> and carry an
  \<^verbatim>\<open>int reference_count\<close>. A pointer is an address or \<^verbatim>\<open>NULL\<close>
  (\<open>None\<close>); the heap of one record kind is an arena indexed by address, a freed
  or never allocated slot being \<open>None\<close>.

  The two members every history struct has, and which the function template
  \<^verbatim>\<open>hist::link\<close> relies on, form the common part \<open>hist_rec\<close>; each struct
  extends it with its own members. The \<^verbatim>\<open>float\<close> members are only stored,
  zeroed and copied by the constructors, so their type is the parameter \<open>'f\<close>.
  A member that a constructor leaves uninitialised is \<open>None\<close>.
\<close>

type_synonym addr = nat

type_synonym 'r arena = "'r option list"

record hist_rec =
  previous :: "addr option"
  reference_count :: int

record LMHistory = hist_rec +
  word_id :: int
  lm_id :: int
  printed :: bool
  word_start_frame :: int

record 'f WordHistory = hist_rec +
  word_id :: int
  end_frame :: int
  lex_node_id :: "int option"
  lm_log_prob :: 'f
  am_log_prob :: 'f
  cum_lm_log_prob :: 'f
  cum_am_log_prob :: 'f
  printed :: bool

record 'f StateHistory = hist_rec +
  hmm_model :: int
  start_time :: int
  log_prob :: "'f option"

text \<open>Reading through a pointer: \<open>None\<close> when the address holds no record.\<close>

definition deref :: "'r arena \<Rightarrow> addr \<Rightarrow> 'r option" where
  "deref s p = (if p < length s then s ! p else None)"

text \<open>
  Modelled from the spec: \<^verbatim>\<open>hist::link\<close> of \<^verbatim>\<open>history.hh\<close>, which is not
  among the sources. The spec describes it as the helper "performing the
  increment" of the record's reference count. Following a pointer to a slot
  that holds no record is undefined in C++ and is the result \<open>None\<close> here.
\<close>

definition link :: "addr \<Rightarrow> ('a hist_rec_scheme) arena \<Rightarrow> ('a hist_rec_scheme) arena option" where
  "link p s =
     (case deref s p of
        None \<Rightarrow> None
      | Some r \<Rightarrow> Some (s[p := Some (r\<lparr>reference_count := reference_count r + 1\<rparr>)]))"

text \<open>
  The constructors. Each returns the record it has initialised together with
  the arena after its side effect on the previous record.
\<close>

definition LMHistory_ctor ::
  "int \<Rightarrow> int \<Rightarrow> addr option \<Rightarrow> LMHistory arena \<Rightarrow> (LMHistory \<times> LMHistory arena) option" where
  "LMHistory_ctor w l prev s =
     (let this = \<lparr>previous = prev, reference_count = 0,
                  LMHistory.word_id = w, lm_id = l,
                  LMHistory.printed = False, word_start_frame = 0\<rparr>
      in case prev of
           None \<Rightarrow> Some (this, s)
         | Some p \<Rightarrow> (case link p s of None \<Rightarrow> None | Some s' \<Rightarrow> Some (this, s')))"

definition WordHistory_ctor ::
  "int \<Rightarrow> int \<Rightarrow> addr option \<Rightarrow> ('f::zero) WordHistory arena
     \<Rightarrow> ('f WordHistory \<times> 'f WordHistory arena) option" where
  "WordHistory_ctor w e prev s =
     (let this = \<lparr>previous = prev, reference_count = 0,
                  WordHistory.word_id = w, end_frame = e, lex_node_id = None,
                  lm_log_prob = 0, am_log_prob = 0,
                  cum_lm_log_prob = 0, cum_am_log_prob = 0,
                  WordHistory.printed = False\<rparr>
      in case prev of
           None \<Rightarrow> Some (this, s)
         | Some p \<Rightarrow>
             (case link p s of
                None \<Rightarrow> None
              | Some s' \<Rightarrow>
                  (case deref s' p of
                     None \<Rightarrow> None
                   | Some pr \<Rightarrow>
                       Some (this\<lparr>cum_am_log_prob := cum_am_log_prob pr,
                                  cum_lm_log_prob := cum_lm_log_prob pr\<rparr>, s'))))"

definition StateHistory_ctor ::
  "int \<Rightarrow> int \<Rightarrow> addr option \<Rightarrow> 'f StateHistory arena
     \<Rightarrow> ('f StateHistory \<times> 'f StateHistory arena) option" where
  "StateHistory_ctor h t prev s =
     (let this = \<lparr>previous = prev, reference_count = 0,
                  hmm_model = h, start_time = t, log_prob = None\<rparr>
      in case prev of
           None \<Rightarrow> Some (this, s)
         | Some p \<Rightarrow> (case link p s of None \<Rightarrow> None | Some s' \<Rightarrow> Some (this, s')))"

section \<open>Properties of the constructors\<close>

lemma deref_update_same:
  "p < length s \<Longrightarrow> deref (s[p := v]) p = v"
  by (simp add: deref_def)

lemma deref_update_other:
  "q \<noteq> p \<Longrightarrow> deref (s[p := v]) q = deref s q"
  by (simp add: deref_def)

lemma deref_Some_less: "deref s p = Some r \<Longrightarrow> p < length s"
  by (simp add: deref_def split: if_splits)

lemma link_Some:
  "deref s p = Some r \<Longrightarrow>
   link p s = Some (s[p := Some (r\<lparr>reference_count := reference_count r + 1\<rparr>)])"
  by (simp add: link_def)

lemma link_None: "deref s p = None \<Longrightarrow> link p s = None"
  by (simp add: link_def)

lemma LMHistory_ctor_rc:
  "LMHistory_ctor w l prev s = Some (r, s') \<Longrightarrow> reference_count r = 0"
  by (auto simp: LMHistory_ctor_def Let_def split: option.splits)

lemma WordHistory_ctor_rc:
  "WordHistory_ctor w e prev s = Some (r, s') \<Longrightarrow> reference_count r = 0"
  by (auto simp: WordHistory_ctor_def Let_def split: option.splits)

lemma StateHistory_ctor_rc:
  "StateHistory_ctor h t prev s = Some (r, s') \<Longrightarrow> reference_count r = 0"
  by (auto simp: StateHistory_ctor_def Let_def split: option.splits)

text \<open>
  C10. A record that a constructor has just built has \<open>reference_count = 0\<close>,
  for each of the three history kinds: the constructor counts no holder for
  the record itself, whatever the previous pointer is.
\<close>

theorem fresh_record_reference_count_zero:
  "(LMHistory_ctor w l prev s = Some (r, s') \<longrightarrow> reference_count r = 0) \<and>
   (WordHistory_ctor w2 e prev2 s2 = Some (r2, s2') \<longrightarrow> reference_count r2 = 0) \<and>
   (StateHistory_ctor h t prev3 s3 = Some (r3, s3') \<longrightarrow> reference_count r3 = 0)"
  by (simp add: LMHistory_ctor_rc WordHistory_ctor_rc StateHistory_ctor_rc)

theorem fresh_record_reference_count_zero_witness:
  "(LMHistory_ctor 7 3 None [] =
      Some (\<lparr>previous = None, reference_count = 0, LMHistory.word_id = 7, lm_id = 3,
              LMHistory.printed = False, word_start_frame = 0\<rparr>, []) \<and>
    reference_count \<lparr>previous = None, reference_count = 0, LMHistory.word_id = 7, lm_id = 3,
              LMHistory.printed = False, word_start_frame = 0\<rparr> = 0) \<and>
   (WordHistory_ctor 7 120 None [] =
      Some (\<lparr>previous = None, reference_count = 0, WordHistory.word_id = 7,
              end_frame = 120, lex_node_id = None, lm_log_prob = 0::real, am_log_prob = 0,
              cum_lm_log_prob = 0, cum_am_log_prob = 0, WordHistory.printed = False\<rparr>, []) \<and>
    reference_count \<lparr>previous = None, reference_count = 0, WordHistory.word_id = 7,
              end_frame = 120, lex_node_id = None, lm_log_prob = 0::real, am_log_prob = 0,
              cum_lm_log_prob = 0, cum_am_log_prob = 0, WordHistory.printed = False\<rparr> = 0) \<and>
   (StateHistory_ctor 4 55 None ([] :: real StateHistory arena) =
      Some (\<lparr>previous = None, reference_count = 0, hmm_model = 4, start_time = 55,
              log_prob = None\<rparr>, []) \<and>
    reference_count \<lparr>previous = None, reference_count = 0, hmm_model = 4, start_time = 55,
              log_prob = None :: real option\<rparr> = 0)"
proof -
  have a: "LMHistory_ctor 7 3 None [] =
      Some (\<lparr>previous = None, reference_count = 0, LMHistory.word_id = 7, lm_id = 3,
              LMHistory.printed = False, word_start_frame = 0\<rparr>, [])"
    by (simp add: LMHistory_ctor_def)
  have b: "WordHistory_ctor 7 120 None [] =
      Some (\<lparr>previous = None, reference_count = 0, WordHistory.word_id = 7,
              end_frame = 120, lex_node_id = None, lm_log_prob = 0::real, am_log_prob = 0,
              cum_lm_log_prob = 0, cum_am_log_prob = 0, WordHistory.printed = False\<rparr>, [])"
    by (simp add: WordHistory_ctor_def)
  have c: "StateHistory_ctor 4 55 None ([] :: real StateHistory arena) =
      Some (\<lparr>previous = None, reference_count = 0, hmm_model = 4, start_time = 55,
              log_prob = None\<rparr>, [])"
    by (simp add: StateHistory_ctor_def)
  show ?thesis
    using a b c
      fresh_record_reference_count_zero
        [of 7 3 None "[]" _ "[]" 7 120 None "[]" _ "[]" 4 55 None "[]" _ "[]"]
    by simp
qed

lemma LMHistory_ctor_null: "\<exists>r. LMHistory_ctor w l None s = Some (r, s)"
  by (simp add: LMHistory_ctor_def)

lemma WordHistory_ctor_null: "\<exists>r. WordHistory_ctor w e None s = Some (r, s)"
  by (simp add: WordHistory_ctor_def)

lemma StateHistory_ctor_null: "\<exists>r. StateHistory_ctor h t None s = Some (r, s)"
  by (simp add: StateHistory_ctor_def)

lemma LMHistory_ctor_link:
  "deref s p = Some pr \<Longrightarrow>
   \<exists>r. LMHistory_ctor w l (Some p) s =
         Some (r, s[p := Some (pr\<lparr>reference_count := reference_count pr + 1\<rparr>)])"
  by (simp add: LMHistory_ctor_def link_Some)

lemma WordHistory_ctor_link:
  "deref s p = Some pr \<Longrightarrow>
   \<exists>r. WordHistory_ctor w e (Some p) s =
         Some (r, s[p := Some (pr\<lparr>reference_count := reference_count pr + 1\<rparr>)])"
  by (frule deref_Some_less)
     (simp add: WordHistory_ctor_def link_Some deref_update_same)

lemma StateHistory_ctor_link:
  "deref s p = Some pr \<Longrightarrow>
   \<exists>r. StateHistory_ctor h t (Some p) s =
         Some (r, s[p := Some (pr\<lparr>reference_count := reference_count pr + 1\<rparr>)])"
  by (simp add: StateHistory_ctor_def link_Some)

text \<open>
  C7. Each of the three constructors returns a record. With a null previous
  pointer the arena is left as it was; with a previous pointer to a record
  \<open>pr\<close> the arena afterwards differs from the one before in that slot only,
  which holds \<open>pr\<close> with its \<open>reference_count\<close> one higher.
\<close>

theorem history_ctor_succeeds_and_links_previous:
  "(\<exists>r. LMHistory_ctor w l None s = Some (r, s)) \<and>
   (\<exists>r. WordHistory_ctor w e None s2 = Some (r, s2)) \<and>
   (\<exists>r. StateHistory_ctor h t None s3 = Some (r, s3)) \<and>
   (deref s p = Some pr \<longrightarrow>
      (\<exists>r. LMHistory_ctor w l (Some p) s =
         Some (r, s[p := Some (pr\<lparr>reference_count := reference_count pr + 1\<rparr>)]))) \<and>
   (deref s2 p2 = Some pr2 \<longrightarrow>
      (\<exists>r. WordHistory_ctor w e (Some p2) s2 =
         Some (r, s2[p2 := Some (pr2\<lparr>reference_count := reference_count pr2 + 1\<rparr>)]))) \<and>
   (deref s3 p3 = Some pr3 \<longrightarrow>
      (\<exists>r. StateHistory_ctor h t (Some p3) s3 =
         Some (r, s3[p3 := Some (pr3\<lparr>reference_count := reference_count pr3 + 1\<rparr>)])))"
  using LMHistory_ctor_null [of w l s] WordHistory_ctor_null [of w e s2]
    StateHistory_ctor_null [of h t s3] LMHistory_ctor_link [of s p pr w l]
    WordHistory_ctor_link [of s2 p2 pr2 w e] StateHistory_ctor_link [of s3 p3 pr3 h t]
  by blast

theorem history_ctor_succeeds_and_links_previous_witness:
  "deref [Some \<lparr>previous = None, reference_count = 1, LMHistory.word_id = 5, lm_id = 2,
                  LMHistory.printed = True, word_start_frame = 40\<rparr>] 0 =
     Some \<lparr>previous = None, reference_count = 1, LMHistory.word_id = 5, lm_id = 2,
            LMHistory.printed = True, word_start_frame = 40\<rparr> \<and>
   (\<exists>r. LMHistory_ctor 7 3 (Some 0)
          [Some \<lparr>previous = None, reference_count = 1, LMHistory.word_id = 5, lm_id = 2,
                  LMHistory.printed = True, word_start_frame = 40\<rparr>] =
        Some (r, [Some \<lparr>previous = None, reference_count = 2, LMHistory.word_id = 5,
                         lm_id = 2, LMHistory.printed = True, word_start_frame = 40\<rparr>])) \<and>
   deref [Some \<lparr>previous = None, reference_count = 1, WordHistory.word_id = 5,
                 end_frame = 90, lex_node_id = Some 12, lm_log_prob = - 2 :: real,
                 am_log_prob = - 30, cum_lm_log_prob = - 6, cum_am_log_prob = - 75,
                 WordHistory.printed = False\<rparr>] 0 =
     Some \<lparr>previous = None, reference_count = 1, WordHistory.word_id = 5,
            end_frame = 90, lex_node_id = Some 12, lm_log_prob = - 2 :: real,
            am_log_prob = - 30, cum_lm_log_prob = - 6, cum_am_log_prob = - 75,
            WordHistory.printed = False\<rparr> \<and>
   (\<exists>r. WordHistory_ctor 7 120 (Some 0)
          [Some \<lparr>previous = None, reference_count = 1, WordHistory.word_id = 5,
                  end_frame = 90, lex_node_id = Some 12, lm_log_prob = - 2 :: real,
                  am_log_prob = - 30, cum_lm_log_prob = - 6, cum_am_log_prob = - 75,
                  WordHistory.printed = False\<rparr>] =
        Some (r, [Some \<lparr>previous = None, reference_count = 2, WordHistory.word_id = 5,
                         end_frame = 90, lex_node_id = Some 12, lm_log_prob = - 2,
                         am_log_prob = - 30, cum_lm_log_prob = - 6, cum_am_log_prob = - 75,
                         WordHistory.printed = False\<rparr>])) \<and>
   deref [Some \<lparr>previous = None, reference_count = 1, hmm_model = 9, start_time = 17,
                 log_prob = Some (- 4 :: real)\<rparr>] 0 =
     Some \<lparr>previous = None, reference_count = 1, hmm_model = 9, start_time = 17,
            log_prob = Some (- 4 :: real)\<rparr> \<and>
   (\<exists>r. StateHistory_ctor 4 55 (Some 0)
          [Some \<lparr>previous = None, reference_count = 1, hmm_model = 9, start_time = 17,
                  log_prob = Some (- 4 :: real)\<rparr>] =
        Some (r, [Some \<lparr>previous = None, reference_count = 2, hmm_model = 9,
                         start_time = 17, log_prob = Some (- 4)\<rparr>]))"
  using history_ctor_succeeds_and_links_previous
    [where w = 7 and l = 3 and e = 120 and h = 4 and t = 55
       and p = 0 and ?p2.0 = 0 and ?p3.0 = 0
       and s = "[Some \<lparr>previous = None, reference_count = 1, LMHistory.word_id = 5,
                        lm_id = 2, LMHistory.printed = True, word_start_frame = 40\<rparr>]"
       and pr = "\<lparr>previous = None, reference_count = 1, LMHistory.word_id = 5,
                  lm_id = 2, LMHistory.printed = True, word_start_frame = 40\<rparr>"
       and ?s2.0 = "[Some \<lparr>previous = None, reference_count = 1, WordHistory.word_id = 5,
                  end_frame = 90, lex_node_id = Some 12, lm_log_prob = - 2 :: real,
                  am_log_prob = - 30, cum_lm_log_prob = - 6, cum_am_log_prob = - 75,
                  WordHistory.printed = False\<rparr>]"
       and ?pr2.0 = "\<lparr>previous = None, reference_count = 1, WordHistory.word_id = 5,
                  end_frame = 90, lex_node_id = Some 12, lm_log_prob = - 2 :: real,
                  am_log_prob = - 30, cum_lm_log_prob = - 6, cum_am_log_prob = - 75,
                  WordHistory.printed = False\<rparr>"
       and ?s3.0 = "[Some \<lparr>previous = None, reference_count = 1, hmm_model = 9,
                  start_time = 17, log_prob = Some (- 4 :: real)\<rparr>]"
       and ?pr3.0 = "\<lparr>previous = None, reference_count = 1, hmm_model = 9,
                  start_time = 17, log_prob = Some (- 4 :: real)\<rparr>"]
  by (simp add: deref_def)

lemma WordHistory_ctor_copies:
  assumes "deref s p = Some pr"
    and "WordHistory_ctor w e (Some p) s = Some (r, s')"
  shows "cum_am_log_prob r = cum_am_log_prob pr \<and> cum_lm_log_prob r = cum_lm_log_prob pr"
proof -
  have "p < length s" using assms(1) by (rule deref_Some_less)
  then show ?thesis
    using assms by (auto simp: WordHistory_ctor_def link_Some deref_update_same)
qed

lemma WordHistory_ctor_null_cum:
  "WordHistory_ctor w e None s = Some (r, s') \<Longrightarrow>
   cum_am_log_prob r = 0 \<and> cum_lm_log_prob r = 0"
  by (auto simp: WordHistory_ctor_def)

lemma LMHistory_ctor_record:
  "LMHistory_ctor w l prev s = Some (r, s') \<Longrightarrow>
   r = \<lparr>previous = prev, reference_count = 0, LMHistory.word_id = w, lm_id = l,
        LMHistory.printed = False, word_start_frame = 0\<rparr>"
  by (auto simp: LMHistory_ctor_def Let_def split: option.splits)

text \<open>
  C6, as the claim states it, fails for lm-history records: \<^verbatim>\<open>struct LMHistory\<close>
  has no cumulative log-probability member (and no \<^verbatim>\<open>float\<close> member at all),
  and its constructor reads nothing from the previous record. Two previous
  records that differ in every member they can differ in give the same new
  record, which holds the two arguments, the pointer, and constants.
\<close>

theorem lm_history_copies_nothing_counterexample:
  "map_option fst (LMHistory_ctor 7 3 (Some 0)
      [Some \<lparr>previous = None, reference_count = 1, LMHistory.word_id = 5, lm_id = 2,
              LMHistory.printed = True, word_start_frame = 40\<rparr>]) =
     Some \<lparr>previous = Some 0, reference_count = 0, LMHistory.word_id = 7, lm_id = 3,
            LMHistory.printed = False, word_start_frame = 0\<rparr> \<and>
   map_option fst (LMHistory_ctor 7 3 (Some 0)
      [Some \<lparr>previous = None, reference_count = 4, LMHistory.word_id = 8, lm_id = 6,
              LMHistory.printed = False, word_start_frame = 77\<rparr>]) =
     Some \<lparr>previous = Some 0, reference_count = 0, LMHistory.word_id = 7, lm_id = 3,
            LMHistory.printed = False, word_start_frame = 0\<rparr>"
  by (simp add: LMHistory_ctor_def link_def deref_def)

text \<open>
  C6, amended. A word-history record built with a previous record \<open>pr\<close> has
  \<open>cum_am_log_prob\<close> and \<open>cum_lm_log_prob\<close> equal to those of \<open>pr\<close> (copied,
  nothing is added to them), and both are zero when the previous pointer is
  null. An lm-history record consists of its two arguments, the previous
  pointer and constants, whatever the previous record holds.
\<close>

theorem word_history_copies_cumulative_log_probs:
  "(deref s p = Some pr \<and> WordHistory_ctor w e (Some p) s = Some (r, s') \<longrightarrow>
      cum_am_log_prob r = cum_am_log_prob pr \<and> cum_lm_log_prob r = cum_lm_log_prob pr) \<and>
   (WordHistory_ctor w e None s = Some (r0, s0') \<longrightarrow>
      cum_am_log_prob r0 = 0 \<and> cum_lm_log_prob r0 = 0) \<and>
   (LMHistory_ctor w l prev2 s2 = Some (r2, s2') \<longrightarrow>
      r2 = \<lparr>previous = prev2, reference_count = 0, LMHistory.word_id = w, lm_id = l,
             LMHistory.printed = False, word_start_frame = 0\<rparr>)"
  using WordHistory_ctor_copies [of s p pr w e r s']
    WordHistory_ctor_null_cum [of w e s r0 s0'] LMHistory_ctor_record [of w l prev2 s2 r2 s2']
  by blast

theorem word_history_copies_cumulative_log_probs_witness:
  "(deref [Some \<lparr>previous = None, reference_count = 1, WordHistory.word_id = 5,
            end_frame = 90, lex_node_id = Some 12, lm_log_prob = - 2 :: real,
            am_log_prob = - 30, cum_lm_log_prob = - 6, cum_am_log_prob = - 75,
            WordHistory.printed = False\<rparr>] 0 = Some \<lparr>previous = None, reference_count = 1, WordHistory.word_id = 5,
            end_frame = 90, lex_node_id = Some 12, lm_log_prob = - 2 :: real,
            am_log_prob = - 30, cum_lm_log_prob = - 6, cum_am_log_prob = - 75,
            WordHistory.printed = False\<rparr> \<and>
    WordHistory_ctor 7 120 (Some 0) [Some \<lparr>previous = None, reference_count = 1, WordHistory.word_id = 5,
            end_frame = 90, lex_node_id = Some 12, lm_log_prob = - 2 :: real,
            am_log_prob = - 30, cum_lm_log_prob = - 6, cum_am_log_prob = - 75,
            WordHistory.printed = False\<rparr>] = Some (\<lparr>previous = Some 0, reference_count = 0, WordHistory.word_id = 7,
            end_frame = 120, lex_node_id = None, lm_log_prob = 0 :: real,
            am_log_prob = 0, cum_lm_log_prob = - 6, cum_am_log_prob = - 75,
            WordHistory.printed = False\<rparr>, [Some \<lparr>previous = None, reference_count = 2, WordHistory.word_id = 5,
            end_frame = 90, lex_node_id = Some 12, lm_log_prob = - 2 :: real,
            am_log_prob = - 30, cum_lm_log_prob = - 6, cum_am_log_prob = - 75,
            WordHistory.printed = False\<rparr>]) \<and>
    cum_am_log_prob \<lparr>previous = Some 0, reference_count = 0, WordHistory.word_id = 7,
            end_frame = 120, lex_node_id = None, lm_log_prob = 0 :: real,
            am_log_prob = 0, cum_lm_log_prob = - 6, cum_am_log_prob = - 75,
            WordHistory.printed = False\<rparr> = cum_am_log_prob \<lparr>previous = None, reference_count = 1, WordHistory.word_id = 5,
            end_frame = 90, lex_node_id = Some 12, lm_log_prob = - 2 :: real,
            am_log_prob = - 30, cum_lm_log_prob = - 6, cum_am_log_prob = - 75,
            WordHistory.printed = False\<rparr> \<and>
    cum_lm_log_prob \<lparr>previous = Some 0, reference_count = 0, WordHistory.word_id = 7,
            end_frame = 120, lex_node_id = None, lm_log_prob = 0 :: real,
            am_log_prob = 0, cum_lm_log_prob = - 6, cum_am_log_prob = - 75,
            WordHistory.printed = False\<rparr> = cum_lm_log_prob \<lparr>previous = None, reference_count = 1, WordHistory.word_id = 5,
            end_frame = 90, lex_node_id = Some 12, lm_log_prob = - 2 :: real,
            am_log_prob = - 30, cum_lm_log_prob = - 6, cum_am_log_prob = - 75,
            WordHistory.printed = False\<rparr>) \<and>
   (WordHistory_ctor 7 120 None [Some \<lparr>previous = None, reference_count = 1, WordHistory.word_id = 5,
            end_frame = 90, lex_node_id = Some 12, lm_log_prob = - 2 :: real,
            am_log_prob = - 30, cum_lm_log_prob = - 6, cum_am_log_prob = - 75,
            WordHistory.printed = False\<rparr>] = Some (\<lparr>previous = None, reference_count = 0, WordHistory.word_id = 7,
            end_frame = 120, lex_node_id = None, lm_log_prob = 0 :: real,
            am_log_prob = 0, cum_lm_log_prob = 0, cum_am_log_prob = 0,
            WordHistory.printed = False\<rparr>, [Some \<lparr>previous = None, reference_count = 1, WordHistory.word_id = 5,
            end_frame = 90, lex_node_id = Some 12, lm_log_prob = - 2 :: real,
            am_log_prob = - 30, cum_lm_log_prob = - 6, cum_am_log_prob = - 75,
            WordHistory.printed = False\<rparr>]) \<and>
    cum_am_log_prob \<lparr>previous = None, reference_count = 0, WordHistory.word_id = 7,
            end_frame = 120, lex_node_id = None, lm_log_prob = 0 :: real,
            am_log_prob = 0, cum_lm_log_prob = 0, cum_am_log_prob = 0,
            WordHistory.printed = False\<rparr> = 0 \<and>
    cum_lm_log_prob \<lparr>previous = None, reference_count = 0, WordHistory.word_id = 7,
            end_frame = 120, lex_node_id = None, lm_log_prob = 0 :: real,
            am_log_prob = 0, cum_lm_log_prob = 0, cum_am_log_prob = 0,
            WordHistory.printed = False\<rparr> = 0) \<and>
   (LMHistory_ctor 7 3 (Some 0) [Some \<lparr>previous = None, reference_count = 1, LMHistory.word_id = 5, lm_id = 2,
            LMHistory.printed = True, word_start_frame = 40\<rparr>] = Some (\<lparr>previous = Some 0, reference_count = 0, LMHistory.word_id = 7, lm_id = 3,
            LMHistory.printed = False, word_start_frame = 0\<rparr>, [Some \<lparr>previous = None, reference_count = 2, LMHistory.word_id = 5, lm_id = 2,
            LMHistory.printed = True, word_start_frame = 40\<rparr>]))"
proof -
  have a: "deref [Some \<lparr>previous = None, reference_count = 1, WordHistory.word_id = 5,
            end_frame = 90, lex_node_id = Some 12, lm_log_prob = - 2 :: real,
            am_log_prob = - 30, cum_lm_log_prob = - 6, cum_am_log_prob = - 75,
            WordHistory.printed = False\<rparr>] 0 = Some \<lparr>previous = None, reference_count = 1, WordHistory.word_id = 5,
            end_frame = 90, lex_node_id = Some 12, lm_log_prob = - 2 :: real,
            am_log_prob = - 30, cum_lm_log_prob = - 6, cum_am_log_prob = - 75,
            WordHistory.printed = False\<rparr>"
    by (simp add: deref_def)
  have b: "WordHistory_ctor 7 120 (Some 0) [Some \<lparr>previous = None, reference_count = 1, WordHistory.word_id = 5,
            end_frame = 90, lex_node_id = Some 12, lm_log_prob = - 2 :: real,
            am_log_prob = - 30, cum_lm_log_prob = - 6, cum_am_log_prob = - 75,
            WordHistory.printed = False\<rparr>] = Some (\<lparr>previous = Some 0, reference_count = 0, WordHistory.word_id = 7,
            end_frame = 120, lex_node_id = None, lm_log_prob = 0 :: real,
            am_log_prob = 0, cum_lm_log_prob = - 6, cum_am_log_prob = - 75,
            WordHistory.printed = False\<rparr>, [Some \<lparr>previous = None, reference_count = 2, WordHistory.word_id = 5,
            end_frame = 90, lex_node_id = Some 12, lm_log_prob = - 2 :: real,
            am_log_prob = - 30, cum_lm_log_prob = - 6, cum_am_log_prob = - 75,
            WordHistory.printed = False\<rparr>])"
    by (simp add: WordHistory_ctor_def link_def deref_def)
  have c: "WordHistory_ctor 7 120 None [Some \<lparr>previous = None, reference_count = 1, WordHistory.word_id = 5,
            end_frame = 90, lex_node_id = Some 12, lm_log_prob = - 2 :: real,
            am_log_prob = - 30, cum_lm_log_prob = - 6, cum_am_log_prob = - 75,
            WordHistory.printed = False\<rparr>] = Some (\<lparr>previous = None, reference_count = 0, WordHistory.word_id = 7,
            end_frame = 120, lex_node_id = None, lm_log_prob = 0 :: real,
            am_log_prob = 0, cum_lm_log_prob = 0, cum_am_log_prob = 0,
            WordHistory.printed = False\<rparr>, [Some \<lparr>previous = None, reference_count = 1, WordHistory.word_id = 5,
            end_frame = 90, lex_node_id = Some 12, lm_log_prob = - 2 :: real,
            am_log_prob = - 30, cum_lm_log_prob = - 6, cum_am_log_prob = - 75,
            WordHistory.printed = False\<rparr>])"
    by (simp add: WordHistory_ctor_def)
  have d: "LMHistory_ctor 7 3 (Some 0) [Some \<lparr>previous = None, reference_count = 1, LMHistory.word_id = 5, lm_id = 2,
            LMHistory.printed = True, word_start_frame = 40\<rparr>] = Some (\<lparr>previous = Some 0, reference_count = 0, LMHistory.word_id = 7, lm_id = 3,
            LMHistory.printed = False, word_start_frame = 0\<rparr>, [Some \<lparr>previous = None, reference_count = 2, LMHistory.word_id = 5, lm_id = 2,
            LMHistory.printed = True, word_start_frame = 40\<rparr>])"
    by (simp add: LMHistory_ctor_def link_def deref_def)
  show ?thesis
    using a b c d
      word_history_copies_cumulative_log_probs
        [where s = "[Some \<lparr>previous = None, reference_count = 1, WordHistory.word_id = 5,
            end_frame = 90, lex_node_id = Some 12, lm_log_prob = - 2 :: real,
            am_log_prob = - 30, cum_lm_log_prob = - 6, cum_am_log_prob = - 75,
            WordHistory.printed = False\<rparr>]" and p = 0 and pr = "\<lparr>previous = None, reference_count = 1, WordHistory.word_id = 5,
            end_frame = 90, lex_node_id = Some 12, lm_log_prob = - 2 :: real,
            am_log_prob = - 30, cum_lm_log_prob = - 6, cum_am_log_prob = - 75,
            WordHistory.printed = False\<rparr>" and w = 7 and e = 120
           and r = "\<lparr>previous = Some 0, reference_count = 0, WordHistory.word_id = 7,
            end_frame = 120, lex_node_id = None, lm_log_prob = 0 :: real,
            am_log_prob = 0, cum_lm_log_prob = - 6, cum_am_log_prob = - 75,
            WordHistory.printed = False\<rparr>" and s' = "[Some \<lparr>previous = None, reference_count = 2, WordHistory.word_id = 5,
            end_frame = 90, lex_node_id = Some 12, lm_log_prob = - 2 :: real,
            am_log_prob = - 30, cum_lm_log_prob = - 6, cum_am_log_prob = - 75,
            WordHistory.printed = False\<rparr>]" and ?r0.0 = "\<lparr>previous = None, reference_count = 0, WordHistory.word_id = 7,
            end_frame = 120, lex_node_id = None, lm_log_prob = 0 :: real,
            am_log_prob = 0, cum_lm_log_prob = 0, cum_am_log_prob = 0,
            WordHistory.printed = False\<rparr>" and s0' = "[Some \<lparr>previous = None, reference_count = 1, WordHistory.word_id = 5,
            end_frame = 90, lex_node_id = Some 12, lm_log_prob = - 2 :: real,
            am_log_prob = - 30, cum_lm_log_prob = - 6, cum_am_log_prob = - 75,
            WordHistory.printed = False\<rparr>]"
           and l = 3 and ?prev2.0 = "Some 0" and ?s2.0 = "[Some \<lparr>previous = None, reference_count = 1, LMHistory.word_id = 5, lm_id = 2,
            LMHistory.printed = True, word_start_frame = 40\<rparr>]" and ?r2.0 = "\<lparr>previous = Some 0, reference_count = 0, LMHistory.word_id = 7, lm_id = 3,
            LMHistory.printed = False, word_start_frame = 0\<rparr>"
           and s2' = "[Some \<lparr>previous = None, reference_count = 2, LMHistory.word_id = 5, lm_id = 2,
            LMHistory.printed = True, word_start_frame = 40\<rparr>]"]
    by simp
qed

section \<open>Releasing links: reference counts over sequences of operations\<close>















































section \<open>The tree-structured n-gram model (TreeGram)\<close>

text \<open>
  \<^verbatim>\<open>TreeGram.hh\<close> declares the class; its member functions are defined in a
  file that is not among the sources, so what they do is taken from the spec
  and from the comments of the header ("The grams must be inserted in sorted
  order. The only exception is the OOV 1-gram, which can be updated any time.
  It exists by default with very small log-prob and zero back-off.", and on
  \<^verbatim>\<open>m_last_gram\<close>: "the last ngram added to the model").

  A gram is a sequence of word ids (\<^verbatim>\<open>std::deque<int>\<close>). The node array
  \<^verbatim>\<open>m_nodes\<close> with its child indices is the storage layout of the association
  from a stored gram to its log-probability and back-off weight; the model
  keeps that association (\<open>m_grams\<close>) and not the layout.

  The type \<^verbatim>\<open>float\<close> is the type parameter \<open>'f\<close>, of which only the constant
  \<open>0\<close> and a binary operation \<open>+\<close> are used. No law of arithmetic is assumed
  of them, so that what is proved holds of single-precision addition with its
  rounding: sums are kept in the order in which the loop forms them. The id of
  the out-of-vocabulary word belongs to the base class \<^verbatim>\<open>Vocabulary\<close>, which
  is not among the sources either: it is the parameter \<open>oov\<close>.
\<close>

type_synonym Gram = "int list"

datatype Type = BACKOFF | INTERPOLATED

record 'f TreeGram =
  m_type :: Type
  m_order :: nat
  m_grams :: "Gram \<rightharpoonup> ('f \<times> 'f)"
  m_last_gram :: Gram



text \<open>\<^verbatim>\<open>void set_type(Type type) { m_type = type; }\<close>\<close>

definition TreeGram_set_type :: "Type \<Rightarrow> 'f TreeGram \<Rightarrow> 'f TreeGram" where
  "TreeGram_set_type type m = m\<lparr>m_type := type\<rparr>"





text \<open>
  Modelled from the spec: \<^verbatim>\<open>TreeGram::log_prob\<close>, not among the sources. "Find
  the deepest matching suffix context, combining stored log-probabilities with
  back-off weights for contexts not found, walking to shorter contexts until a
  match or the unigram context is reached"; "a requested n-gram context not
  found ... triggers back-off to a shorter context, terminating at the
  unigram/OOV entry, which always exists". \<open>backoff_from\<close> is the loop with
  its accumulator, which starts at zero: when the gram at hand is stored its
  log-probability is added and the loop ends; otherwise the back-off weight
  of its context (the gram without its last word) is added when that context
  is stored, and the loop goes on with the gram without its first word. For
  the interpolated type the spec names the estimate ("weighted blending") and
  gives no formula: it is the parameter \<open>interp\<close>.
\<close>

fun backoff_from :: "int \<Rightarrow> ('f::plus) TreeGram \<Rightarrow> 'f \<Rightarrow> Gram \<Rightarrow> 'f option" where
  "backoff_from oov m acc [] = None"
| "backoff_from oov m acc [w] =
     (case m_grams m [w] of
        Some (lp, bo) \<Rightarrow> Some (acc + lp)
      | None \<Rightarrow> (case m_grams m [oov] of Some (lp, bo) \<Rightarrow> Some (acc + lp) | None \<Rightarrow> None))"
| "backoff_from oov m acc (w # ws) =
     (case m_grams m (w # ws) of
        Some (lp, bo) \<Rightarrow> Some (acc + lp)
      | None \<Rightarrow>
          backoff_from oov m
            (case m_grams m (butlast (w # ws)) of Some (lp, bo) \<Rightarrow> acc + bo | None \<Rightarrow> acc)
            ws)"

definition TreeGram_log_prob ::
  "(('f::{zero,plus}) TreeGram \<Rightarrow> Gram \<Rightarrow> 'f option) \<Rightarrow> int \<Rightarrow> 'f TreeGram \<Rightarrow> Gram
     \<Rightarrow> 'f option" where
  "TreeGram_log_prob interp oov m gram =
     (case m_type m of
        BACKOFF \<Rightarrow> backoff_from oov m 0 gram
      | INTERPOLATED \<Rightarrow> interp m gram)"

text \<open>
  The specification side of the back-off estimate: the back-off weights that
  are picked up on the way down, in the order in which they are met (the
  weight of one gram's context first, then those of the shorter suffixes),
  and the log-probability at which the walk ends.
\<close>

definition context_back_offs :: "'f TreeGram \<Rightarrow> Gram \<Rightarrow> 'f list" where
  "context_back_offs m gram =
     (case m_grams m (butlast gram) of Some (lp, bo) \<Rightarrow> [bo] | None \<Rightarrow> [])"

fun skipped_back_offs :: "'f TreeGram \<Rightarrow> Gram \<Rightarrow> 'f list" where
  "skipped_back_offs m [] = []"
| "skipped_back_offs m [w] = []"
| "skipped_back_offs m (w # ws) =
     (case m_grams m (w # ws) of
        Some _ \<Rightarrow> []
      | None \<Rightarrow> context_back_offs m (w # ws) @ skipped_back_offs m ws)"

fun matched_log_prob :: "int \<Rightarrow> 'f TreeGram \<Rightarrow> Gram \<Rightarrow> 'f option" where
  "matched_log_prob oov m [] = None"
| "matched_log_prob oov m [w] =
     (case m_grams m [w] of
        Some (lp, bo) \<Rightarrow> Some lp
      | None \<Rightarrow> map_option fst (m_grams m [oov]))"
| "matched_log_prob oov m (w # ws) =
     (case m_grams m (w # ws) of
        Some (lp, bo) \<Rightarrow> Some lp
      | None \<Rightarrow> matched_log_prob oov m ws)"



lemma backoff_from_closed:
  "backoff_from oov m acc g =
     map_option (\<lambda>lp. foldl (+) acc (skipped_back_offs m g @ [lp])) (matched_log_prob oov m g)"
  by (induction oov m acc g rule: backoff_from.induct)
     (auto simp: context_back_offs_def split: option.splits)

lemma unstored_walk:
  assumes "2 \<le> length g" and "m_grams m g = None"
  shows "skipped_back_offs m g = context_back_offs m g @ skipped_back_offs m (tl g)"
    and "matched_log_prob oov m g = matched_log_prob oov m (tl g)"
proof -
  from assms(1) obtain x y ys where g: "g = x # y # ys"
    by (cases g; cases "tl g") auto
  show "skipped_back_offs m g = context_back_offs m g @ skipped_back_offs m (tl g)"
    using assms(2) unfolding g by simp
  show "matched_log_prob oov m g = matched_log_prob oov m (tl g)"
    using assms(2) unfolding g by simp
qed








text \<open>
  C1. In a back-off model, \<open>log_prob\<close> of any gram \<open>q\<close> is the sum, formed
  from the left starting at zero, of the back-off weights picked up on the way
  down and of the log-probability at which the walk ends. For a gram \<open>g\<close> of
  two or more words that is not stored, these are the back-off weight of the
  context of \<open>g\<close> (none when that context is not stored either) followed by
  the terms of \<open>log_prob\<close> of the next shorter suffix \<open>tl g\<close>. The recursion
  ends at a stored gram \<open>s\<close>, with its stored log-probability, or at the
  unigram level, where a word \<open>w\<close> without unigram gets the log-probability of
  the OOV unigram. Nothing is assumed of the addition.
\<close>

theorem log_prob_backs_off:
  fixes m :: "('f::{zero,plus}) TreeGram"
  shows
  "m_type m = BACKOFF \<longrightarrow>
     TreeGram_log_prob interp oov m q =
       map_option (\<lambda>x. foldl (+) 0 (skipped_back_offs m q @ [x]))
         (matched_log_prob oov m q) \<and>
     (2 \<le> length g \<and> m_grams m g = None \<longrightarrow>
        TreeGram_log_prob interp oov m g =
          map_option
            (\<lambda>x. foldl (+) 0 (context_back_offs m g @ skipped_back_offs m (tl g) @ [x]))
            (matched_log_prob oov m (tl g)) \<and>
        TreeGram_log_prob interp oov m (tl g) =
          map_option (\<lambda>x. foldl (+) 0 (skipped_back_offs m (tl g) @ [x]))
            (matched_log_prob oov m (tl g))) \<and>
     (s \<noteq> [] \<and> m_grams m s = Some (lp, bo) \<longrightarrow>
        TreeGram_log_prob interp oov m s = Some (0 + lp)) \<and>
     (m_grams m [w] = None \<longrightarrow>
        TreeGram_log_prob interp oov m [w] =
          map_option (\<lambda>x. 0 + x) (map_option fst (m_grams m [oov])))"
proof (intro impI conjI)
  assume t: "m_type m = BACKOFF"
  have closed: "\<And>x. TreeGram_log_prob interp oov m x =
       map_option (\<lambda>y. foldl (+) 0 (skipped_back_offs m x @ [y])) (matched_log_prob oov m x)"
    using t by (simp add: TreeGram_log_prob_def backoff_from_closed)
  show "TreeGram_log_prob interp oov m q =
       map_option (\<lambda>x. foldl (+) 0 (skipped_back_offs m q @ [x])) (matched_log_prob oov m q)"
    by (rule closed)
  show "TreeGram_log_prob interp oov m [w] =
          map_option (\<lambda>x. 0 + x) (map_option fst (m_grams m [oov]))"
    if "m_grams m [w] = None"
    using t that by (auto simp: TreeGram_log_prob_def split: option.splits)
  show "TreeGram_log_prob interp oov m s = Some (0 + lp)"
    if "s \<noteq> [] \<and> m_grams m s = Some (lp, bo)"
  proof -
    from that obtain x xs where s: "s = x # xs" by (cases s) auto
    show ?thesis using t that unfolding s by (cases xs) (simp_all add: TreeGram_log_prob_def)
  qed
  show "TreeGram_log_prob interp oov m g =
          map_option
            (\<lambda>x. foldl (+) 0 (context_back_offs m g @ skipped_back_offs m (tl g) @ [x]))
            (matched_log_prob oov m (tl g))"
    if h: "2 \<le> length g \<and> m_grams m g = None"
    using closed [of g] unstored_walk(1) [of g m] unstored_walk(2) [of g m oov] h by simp
  show "TreeGram_log_prob interp oov m (tl g) =
          map_option (\<lambda>x. foldl (+) 0 (skipped_back_offs m (tl g) @ [x]))
            (matched_log_prob oov m (tl g))"
    if "2 \<le> length g \<and> m_grams m g = None"
    by (rule closed)
qed

theorem log_prob_backs_off_witness:
  "m_type \<lparr>m_type = BACKOFF, m_order = 2,
        m_grams = [[0] \<mapsto> (- 99 :: real, 0), [1] \<mapsto> (- 1.0, 0.0),
                   [1, 2] \<mapsto> (- 0.5, - 0.1), [1, 3] \<mapsto> (- 0.7, - 0.2)],
        m_last_gram = [1, 3]\<rparr> = BACKOFF \<and>
   2 \<le> length [1, 4 :: int] \<and>
   m_grams \<lparr>m_type = BACKOFF, m_order = 2,
        m_grams = [[0] \<mapsto> (- 99 :: real, 0), [1] \<mapsto> (- 1.0, 0.0),
                   [1, 2] \<mapsto> (- 0.5, - 0.1), [1, 3] \<mapsto> (- 0.7, - 0.2)],
        m_last_gram = [1, 3]\<rparr> [1, 4] = None \<and>
   TreeGram_log_prob (\<lambda>m g. None) 0 \<lparr>m_type = BACKOFF, m_order = 2,
        m_grams = [[0] \<mapsto> (- 99 :: real, 0), [1] \<mapsto> (- 1.0, 0.0),
                   [1, 2] \<mapsto> (- 0.5, - 0.1), [1, 3] \<mapsto> (- 0.7, - 0.2)],
        m_last_gram = [1, 3]\<rparr> [1, 4] = Some (0 + 0.0 + - 99) \<and>
   context_back_offs \<lparr>m_type = BACKOFF, m_order = 2,
        m_grams = [[0] \<mapsto> (- 99 :: real, 0), [1] \<mapsto> (- 1.0, 0.0),
                   [1, 2] \<mapsto> (- 0.5, - 0.1), [1, 3] \<mapsto> (- 0.7, - 0.2)],
        m_last_gram = [1, 3]\<rparr> [1, 4] = [0.0] \<and>
   skipped_back_offs \<lparr>m_type = BACKOFF, m_order = 2,
        m_grams = [[0] \<mapsto> (- 99 :: real, 0), [1] \<mapsto> (- 1.0, 0.0),
                   [1, 2] \<mapsto> (- 0.5, - 0.1), [1, 3] \<mapsto> (- 0.7, - 0.2)],
        m_last_gram = [1, 3]\<rparr> (tl [1, 4]) = [] \<and>
   matched_log_prob 0 \<lparr>m_type = BACKOFF, m_order = 2,
        m_grams = [[0] \<mapsto> (- 99 :: real, 0), [1] \<mapsto> (- 1.0, 0.0),
                   [1, 2] \<mapsto> (- 0.5, - 0.1), [1, 3] \<mapsto> (- 0.7, - 0.2)],
        m_last_gram = [1, 3]\<rparr> (tl [1, 4]) = Some (- 99) \<and>
   TreeGram_log_prob (\<lambda>m g. None) 0 \<lparr>m_type = BACKOFF, m_order = 2,
        m_grams = [[0] \<mapsto> (- 99 :: real, 0), [1] \<mapsto> (- 1.0, 0.0),
                   [1, 2] \<mapsto> (- 0.5, - 0.1), [1, 3] \<mapsto> (- 0.7, - 0.2)],
        m_last_gram = [1, 3]\<rparr> (tl [1, 4]) = Some (0 + - 99) \<and>
   [1, 2 :: int] \<noteq> [] \<and>
   m_grams \<lparr>m_type = BACKOFF, m_order = 2,
        m_grams = [[0] \<mapsto> (- 99 :: real, 0), [1] \<mapsto> (- 1.0, 0.0),
                   [1, 2] \<mapsto> (- 0.5, - 0.1), [1, 3] \<mapsto> (- 0.7, - 0.2)],
        m_last_gram = [1, 3]\<rparr> [1, 2] = Some (- 0.5, - 0.1) \<and>
   TreeGram_log_prob (\<lambda>m g. None) 0 \<lparr>m_type = BACKOFF, m_order = 2,
        m_grams = [[0] \<mapsto> (- 99 :: real, 0), [1] \<mapsto> (- 1.0, 0.0),
                   [1, 2] \<mapsto> (- 0.5, - 0.1), [1, 3] \<mapsto> (- 0.7, - 0.2)],
        m_last_gram = [1, 3]\<rparr> [1, 2] = Some (0 + - 0.5) \<and>
   m_grams \<lparr>m_type = BACKOFF, m_order = 2,
        m_grams = [[0] \<mapsto> (- 99 :: real, 0), [1] \<mapsto> (- 1.0, 0.0),
                   [1, 2] \<mapsto> (- 0.5, - 0.1), [1, 3] \<mapsto> (- 0.7, - 0.2)],
        m_last_gram = [1, 3]\<rparr> [4] = None \<and>
   TreeGram_log_prob (\<lambda>m g. None) 0 \<lparr>m_type = BACKOFF, m_order = 2,
        m_grams = [[0] \<mapsto> (- 99 :: real, 0), [1] \<mapsto> (- 1.0, 0.0),
                   [1, 2] \<mapsto> (- 0.5, - 0.1), [1, 3] \<mapsto> (- 0.7, - 0.2)],
        m_last_gram = [1, 3]\<rparr> [4] = Some (0 + - 99)"
  using log_prob_backs_off
    [where m = "\<lparr>m_type = BACKOFF, m_order = 2,
        m_grams = [[0] \<mapsto> (- 99 :: real, 0), [1] \<mapsto> (- 1.0, 0.0),
                   [1, 2] \<mapsto> (- 0.5, - 0.1), [1, 3] \<mapsto> (- 0.7, - 0.2)],
        m_last_gram = [1, 3]\<rparr>"
       and interp = "\<lambda>m g. None"
       and oov = 0 and g = "[1, 4]" and s = "[1, 2]" and lp = "- 0.5" and bo = "- 0.1"
       and w = 4 and q = "[1, 4]"]
  by (simp add: context_back_offs_def)




end
